theory Spec2Isabelle
  imports Main "HOL-Library.AList"
begin

section \<open>Strings and paths\<close>

text \<open>
  A Python \<open>str\<close> is modelled as a \<open>string\<close>; a \<open>char\<close> stands for the code point of
  that number, so the model covers the strings whose code points are below 256.
\<close>

definition in_range :: "char \<Rightarrow> char \<Rightarrow> char \<Rightarrow> bool" where
  "in_range a b c = ((of_char a :: nat) \<le> of_char c \<and> (of_char c :: nat) \<le> of_char b)"

definition is_upper_chr :: "char \<Rightarrow> bool" where
  "is_upper_chr c =
     (in_range CHR ''A'' CHR ''Z'' c \<or> in_range (CHR 0xC0) (CHR 0xD6) c
      \<or> in_range (CHR 0xD8) (CHR 0xDE) c)"

definition is_lower_chr :: "char \<Rightarrow> bool" where
  "is_lower_chr c =
     (in_range CHR ''a'' CHR ''z'' c \<or> in_range (CHR 0xE0) (CHR 0xF6) c
      \<or> in_range (CHR 0xF8) (CHR 0xFE) c)"

definition lower_chr :: "char \<Rightarrow> char" where
  "lower_chr c = (if is_upper_chr c then char_of ((of_char c :: nat) + 32) else c)"

definition upper_chr :: "char \<Rightarrow> char" where
  "upper_chr c = (if is_lower_chr c then char_of ((of_char c :: nat) - 32) else c)"

text \<open>\<open>str.lower()\<close>.\<close>

definition lower :: "string \<Rightarrow> string" where
  "lower s = map lower_chr s"

text \<open>\<open>str.startswith\<close> and \<open>str.endswith\<close>.\<close>

definition startswith :: "string \<Rightarrow> string \<Rightarrow> bool" where
  "startswith s p = (take (length p) s = p)"

definition endswith :: "string \<Rightarrow> string \<Rightarrow> bool" where
  "endswith s p = (length p \<le> length s \<and> drop (length s - length p) s = p)"

text \<open>\<open>s.split(c)\<close> for a one-character separator: the result is never empty.\<close>

fun split_chr :: "char \<Rightarrow> string \<Rightarrow> string list" where
  "split_chr c [] = [[]]"
| "split_chr c (x # xs) =
     (if x = c then [] # split_chr c xs
      else (case split_chr c xs of [] \<Rightarrow> [[x]] | y # ys \<Rightarrow> (x # y) # ys))"

text \<open>\<open>s.rfind(c)\<close>: the index of the last occurrence, or \<open>-1\<close>.\<close>

definition rfind :: "char \<Rightarrow> string \<Rightarrow> int" where
  "rfind c s =
     (if c \<in> set s then int (length s) - 1 - int (length (takeWhile (\<lambda>x. x \<noteq> c) (rev s)))
      else - 1)"

text \<open>\<open>posixpath.join(a, b)\<close>.\<close>

definition path_join :: "string \<Rightarrow> string \<Rightarrow> string" where
  "path_join a b =
     (if startswith b ''/'' then b
      else if a = [] \<or> endswith a ''/'' then a @ b
      else a @ ''/'' @ b)"

text \<open>\<open>posixpath.basename(p)\<close>: \<open>p[p.rfind('/') + 1:]\<close>.\<close>

definition basename :: "string \<Rightarrow> string" where
  "basename p = drop (nat (rfind CHR ''/'' p + 1)) p"

text \<open>
  \<open>posixpath.splitext(p)\<close>: the extension starts at the last dot of the last component,
  unless that component has only dots before it.
\<close>

definition splitext :: "string \<Rightarrow> string \<times> string" where
  "splitext p =
     (let sepIndex = rfind CHR ''/'' p; dotIndex = rfind CHR ''.'' p
      in if dotIndex > sepIndex
            \<and> list_ex (\<lambda>i. p ! i \<noteq> CHR ''.'') [nat (sepIndex + 1) ..< nat dotIndex]
         then (take (nat dotIndex) p, drop (nat dotIndex) p)
         else (p, []))"

text \<open>\<open>'/'.join(comps)\<close>.\<close>

fun join_slash :: "string list \<Rightarrow> string" where
  "join_slash [] = []"
| "join_slash [x] = x"
| "join_slash (x # y # ys) = x @ ''/'' @ join_slash (y # ys)"

text \<open>
  The loop of \<open>posixpath.normpath\<close> over the components; \<open>new_comps\<close> is kept reversed,
  \<open>rooted\<close> says that the path starts with a slash.
\<close>

fun norm_comps :: "bool \<Rightarrow> string list \<Rightarrow> string list \<Rightarrow> string list" where
  "norm_comps rooted acc [] = rev acc"
| "norm_comps rooted acc (x # xs) =
     (if x = [] \<or> x = ''.'' then norm_comps rooted acc xs
      else if x \<noteq> ''..'' \<or> (\<not> rooted \<and> acc = []) \<or> (acc \<noteq> [] \<and> hd acc = ''..'')
        then norm_comps rooted (x # acc) xs
      else if acc \<noteq> [] then norm_comps rooted (tl acc) xs
      else norm_comps rooted acc xs)"

definition normpath :: "string \<Rightarrow> string" where
  "normpath path =
     (if path = [] then ''.''
      else let initial_slashes =
                 (if startswith path ''/'' then
                    (if startswith path ''//'' \<and> \<not> startswith path ''///'' then 2 else 1)
                  else (0::nat));
               p = replicate initial_slashes CHR ''/''
                   @ join_slash (norm_comps (0 < initial_slashes) [] (split_chr CHR ''/'' path))
           in if p = [] then ''.'' else p)"

section \<open>The URL validator\<close>

text \<open>
  The pattern of \<open>is_valid_url\<close> is kept as a syntax tree of the regular expression and
  run by a matcher that returns every remainder a match can leave, so that a match
  exists iff the backtracking matcher of \<open>re\<close> finds one.
\<close>

datatype atom = Chr char | Rng char char | Digit | NonSpace

datatype regex =
    Atom atom
  | CSet "atom list"
  | Seq regex regex
  | Alt regex regex
  | Rep nat "nat option" regex
  | Eos

text \<open>\<open>\d\<close> and \<open>\S\<close> on code points below 256 (\<open>str\<close> patterns are Unicode patterns).\<close>

definition is_digit :: "char \<Rightarrow> bool" where
  "is_digit c = in_range CHR ''0'' CHR ''9'' c"

definition is_space :: "char \<Rightarrow> bool" where
  "is_space c =
     (in_range (CHR 0x09) (CHR 0x0D) c \<or> in_range (CHR 0x1C) (CHR 0x20) c
      \<or> c = CHR 0x85 \<or> c = CHR 0xA0)"

text \<open>One atom against one character under \<open>re.IGNORECASE\<close>.\<close>

fun atom_match :: "atom \<Rightarrow> char \<Rightarrow> bool" where
  "atom_match (Chr a) c = (lower_chr c = lower_chr a)"
| "atom_match (Rng a b) c =
     (in_range a b c \<or> in_range a b (lower_chr c) \<or> in_range a b (upper_chr c))"
| "atom_match Digit c = is_digit c"
| "atom_match NonSpace c = (\<not> is_space c)"

definition one_char :: "(char \<Rightarrow> bool) \<Rightarrow> string \<Rightarrow> string list" where
  "one_char P s = (case s of [] \<Rightarrow> [] | c # cs \<Rightarrow> if P c then [cs] else [])"

text \<open>
  \<open>reps f lo fuel s\<close>: the remainders after at least \<open>lo\<close> and at most \<open>fuel\<close> rounds
  of \<open>f\<close>.
\<close>

fun reps :: "(string \<Rightarrow> string list) \<Rightarrow> nat \<Rightarrow> nat \<Rightarrow> string \<Rightarrow> string list" where
  "reps f lo 0 s = (if lo = 0 then [s] else [])"
| "reps f lo (Suc n) s =
     (if lo = 0 then [s] else []) @ concat (map (reps f (lo - 1) n) (f s))"

text \<open>
  \<open>$\<close> without \<open>re.MULTILINE\<close> matches at the end of the string and just before a
  newline that ends the string. An unbounded repetition needs at most \<open>lo + length s\<close>
  rounds.
\<close>

fun rmatch :: "regex \<Rightarrow> string \<Rightarrow> string list" where
  "rmatch (Atom a) s = one_char (atom_match a) s"
| "rmatch (CSet as) s = one_char (\<lambda>c. list_ex (\<lambda>a. atom_match a c) as) s"
| "rmatch (Seq r1 r2) s = concat (map (rmatch r2) (rmatch r1 s))"
| "rmatch (Alt r1 r2) s = rmatch r1 s @ rmatch r2 s"
| "rmatch (Rep lo hi r) s =
     reps (rmatch r) lo (case hi of Some h \<Rightarrow> h | None \<Rightarrow> lo + length s) s"
| "rmatch Eos s = (if s = [] \<or> s = [CHR 0x0A] then [s] else [])"

fun lit :: "string \<Rightarrow> regex" where
  "lit [] = Rep 0 (Some 0) Eos"
| "lit [c] = Atom (Chr c)"
| "lit (c # cs) = Seq (Atom (Chr c)) (lit cs)"

fun seqs :: "regex list \<Rightarrow> regex" where
  "seqs [] = Rep 0 (Some 0) Eos"
| "seqs [r] = r"
| "seqs (r # rs) = Seq r (seqs rs)"

abbreviation opt :: "regex \<Rightarrow> regex" where
  "opt r \<equiv> Rep 0 (Some 1) r"

definition alnum :: "atom list" where
  "alnum = [Rng CHR ''A'' CHR ''Z'', Rng CHR ''0'' CHR ''9'']"

definition alnum_hyphen :: "atom list" where
  "alnum_hyphen = [Rng CHR ''A'' CHR ''Z'', Rng CHR ''0'' CHR ''9'', Chr CHR ''-'']"

text \<open>\<open>(?:http|ftp)s?://\<close>\<close>

definition re_scheme :: regex where
  "re_scheme = seqs [Alt (lit ''http'') (lit ''ftp''), opt (lit ''s''), lit ''://'']"

text \<open>\<open>(?:[A-Z0-9](?:[A-Z0-9-]{0,61}[A-Z0-9])?\.)+(?:[A-Z]{2,6}\.?|[A-Z0-9-]{2,}\.?)\<close>\<close>

definition re_domain :: regex where
  "re_domain =
     Seq (Rep 1 None
            (seqs [CSet alnum,
                   opt (Seq (Rep 0 (Some 61) (CSet alnum_hyphen)) (CSet alnum)),
                   lit ''.'']))
         (Alt (Seq (Rep 2 (Some 6) (CSet [Rng CHR ''A'' CHR ''Z''])) (opt (lit ''.'')))
              (Seq (Rep 2 None (CSet alnum_hyphen)) (opt (lit ''.''))))"

text \<open>\<open>\d{1,3}\.\d{1,3}\.\d{1,3}\.\d{1,3}\<close>\<close>

definition re_ip :: regex where
  "re_ip =
     seqs [Rep 1 (Some 3) (Atom Digit), lit ''.'', Rep 1 (Some 3) (Atom Digit), lit ''.'',
           Rep 1 (Some 3) (Atom Digit), lit ''.'', Rep 1 (Some 3) (Atom Digit)]"

text \<open>\<open>(?::\d+)?(?:/?|[/?]\S+)$\<close>\<close>

definition re_tail :: regex where
  "re_tail =
     seqs [opt (Seq (lit '':'') (Rep 1 None (Atom Digit))),
           Alt (opt (lit ''/''))
               (Seq (CSet [Chr CHR ''/'', Chr CHR ''?'']) (Rep 1 None (Atom NonSpace))),
           Eos]"

definition url_regex :: regex where
  "url_regex = seqs [re_scheme, Alt re_domain (Alt (lit ''localhost'') re_ip), re_tail]"

text \<open>
  \<open>re.match(regex, url) is not None\<close>: a match starts at the first character (where
  \<open>^\<close> holds) and may end anywhere, here only where \<open>$\<close> holds.
\<close>

definition is_valid_url :: "string \<Rightarrow> bool" where
  "is_valid_url url = (rmatch url_regex url \<noteq> [])"

section \<open>Exceptions, the file system and the external libraries\<close>

text \<open>
  An exception of a class derived from \<open>Exception\<close> that a library call raises:
  the two classes of \<open>speech_recognition\<close> that \<open>transcribe_audio\<close> names, and any
  other one with its \<open>str()\<close>. \<open>str(UnknownValueError())\<close> is empty.
\<close>

datatype exn = UnknownValueError | RequestError string | Error string

fun str_exn :: "exn \<Rightarrow> string" where
  "str_exn UnknownValueError = []"
| "str_exn (RequestError m) = m"
| "str_exn (Error m) = m"

text \<open>
  The file system is a store from keys to regular files with their bytes and to
  directories; the first entry of a key counts. A key is the normalised form of a
  path, relative to the current directory or absolute. There are no symbolic links.
  The current directory, its ancestors and the root are directories.
\<close>

datatype node = File string | Dir

type_synonym fs = "(string \<times> node) list"

definition quoted :: "string \<Rightarrow> string" where
  "quoted p = [CHR 0x27] @ p @ [CHR 0x27]"

definition IsADirectoryError :: "string \<Rightarrow> exn" where
  "IsADirectoryError p = Error (''[Errno 21] Is a directory: '' @ quoted p)"

definition FileNotFoundError :: "string \<Rightarrow> exn" where
  "FileNotFoundError p = Error (''[Errno 2] No such file or directory: '' @ quoted p)"

definition NotADirectoryError :: "string \<Rightarrow> exn" where
  "NotADirectoryError p = Error (''[Errno 20] Not a directory: '' @ quoted p)"

definition FileNameTooLong :: "string \<Rightarrow> exn" where
  "FileNameTooLong p = Error (''[Errno 36] File name too long: '' @ quoted p)"

text \<open>
  What makes the system refuse a path whatever the store holds: the empty path, a NUL
  character (a \<open>ValueError\<close>), more than 4095 bytes in all or more than 255 in one
  component, counted in UTF-8.
\<close>

definition utf8_len :: "string \<Rightarrow> nat" where
  "utf8_len s = sum_list (map (\<lambda>c. if (of_char c :: nat) < 128 then 1 else 2) s)"

definition path_fault :: "string \<Rightarrow> exn option" where
  "path_fault p =
     (if p = [] then Some (FileNotFoundError p)
      else if CHR 0x00 \<in> set p then Some (Error ''embedded null byte'')
      else if 4095 < utf8_len p \<or> list_ex (\<lambda>c. 255 < utf8_len c) (split_chr CHR ''/'' p)
        then Some (FileNameTooLong p)
      else None)"

definition always_dir :: "string \<Rightarrow> bool" where
  "always_dir k =
     (k = ''.'' \<or> k = ''/'' \<or> k = ''//'' \<or> list_all (\<lambda>c. c = ''..'') (split_chr CHR ''/'' k))"

definition node_at :: "fs \<Rightarrow> string \<Rightarrow> node option" where
  "node_at fs k = (if always_dir k then Some Dir else map_of fs k)"

text \<open>
  Path resolution walks the components from the current directory or the root: every
  component, also an empty one, \<open>.\<close> and \<open>..\<close>, is looked up in a directory that
  must exist, so a path through a missing directory or through a regular file, or
  with a slash after the name of a regular file, resolves to nothing.
\<close>

definition start_dir :: "string \<Rightarrow> string" where
  "start_dir p =
     (if startswith p ''//'' \<and> \<not> startswith p ''///'' then ''//''
      else if startswith p ''/'' then ''/'' else ''.'')"

definition step :: "string \<Rightarrow> string \<Rightarrow> string" where
  "step cur c = normpath (path_join cur c)"

fun walk :: "fs \<Rightarrow> string \<Rightarrow> string \<Rightarrow> string list \<Rightarrow> exn + string" where
  "walk fs p cur [] = Inr cur"
| "walk fs p cur (c # cs) =
     (case node_at fs cur of
        Some Dir \<Rightarrow> walk fs p (step cur c) cs
      | Some (File _) \<Rightarrow> Inl (NotADirectoryError p)
      | None \<Rightarrow> Inl (FileNotFoundError p))"

definition resolve :: "fs \<Rightarrow> string \<Rightarrow> exn + string" where
  "resolve fs p =
     (case path_fault p of
        Some x \<Rightarrow> Inl x
      | None \<Rightarrow> walk fs p (start_dir p) (split_chr CHR ''/'' p))"

definition lookup :: "fs \<Rightarrow> string \<Rightarrow> node option" where
  "lookup fs p = (case resolve fs p of Inl _ \<Rightarrow> None | Inr k \<Rightarrow> node_at fs k)"

text \<open>\<open>os.path.exists(p)\<close>: false also where the path cannot be resolved.\<close>

definition os_path_exists :: "fs \<Rightarrow> string \<Rightarrow> bool" where
  "os_path_exists fs p = (lookup fs p \<noteq> None)"

text \<open>The store without the entry that \<open>p\<close> resolves to.\<close>

definition unlinked :: "fs \<Rightarrow> string \<Rightarrow> fs" where
  "unlinked fs p = (case resolve fs p of Inl _ \<Rightarrow> fs | Inr k \<Rightarrow> AList.delete k fs)"

text \<open>\<open>os.remove(p)\<close> unlinks a regular file and raises on a directory or a missing path.\<close>

definition os_remove :: "fs \<Rightarrow> string \<Rightarrow> exn + fs" where
  "os_remove fs p =
     (case resolve fs p of
        Inl x \<Rightarrow> Inl x
      | Inr k \<Rightarrow>
          (case node_at fs k of
             None \<Rightarrow> Inl (FileNotFoundError p)
           | Some Dir \<Rightarrow> Inl (IsADirectoryError p)
           | Some (File _) \<Rightarrow> Inr (unlinked fs p)))"

text \<open>
  \<open>with open(p, "wb") as buffer: shutil.copyfileobj(src, buffer)\<close>, where \<open>data\<close> is
  what \<open>src\<close> still has to give: the file is created or truncated, then written.
  Opening raises when the path does not resolve or names a directory; a new name
  followed by a slash is refused as a directory.
\<close>

definition rstrip_slash :: "string \<Rightarrow> string" where
  "rstrip_slash p = rev (dropWhile (\<lambda>c. c = CHR ''/'') (rev p))"

definition write_file :: "fs \<Rightarrow> string \<Rightarrow> string \<Rightarrow> exn + fs" where
  "write_file fs p data =
     (case resolve fs p of
        Inr k \<Rightarrow>
          if node_at fs k = Some Dir then Inl (IsADirectoryError p)
          else Inr (AList.update k (File data) fs)
      | Inl x \<Rightarrow>
          if endswith p ''/'' \<and> lookup fs (rstrip_slash p) = None
             \<and> (case resolve fs (rstrip_slash p) of Inr _ \<Rightarrow> True | Inl _ \<Rightarrow> False)
          then Inl (IsADirectoryError p) else Inl x)"

text \<open>
  \<open>os.listdir(d)\<close>: the names of the entries of a directory, in the order of the
  store.
\<close>

definition is_name :: "string \<Rightarrow> bool" where
  "is_name n = (n \<noteq> [] \<and> n \<noteq> ''.'' \<and> n \<noteq> ''..'')"

definition listdir :: "fs \<Rightarrow> string \<Rightarrow> exn + string list" where
  "listdir fs d =
     (case resolve fs d of
        Inl x \<Rightarrow> Inl x
      | Inr kd \<Rightarrow>
          (case node_at fs kd of
             None \<Rightarrow> Inl (FileNotFoundError d)
           | Some (File _) \<Rightarrow> Inl (NotADirectoryError d)
           | Some Dir \<Rightarrow>
               Inr (remdups (map basename
                      (filter (\<lambda>k. is_name (basename k) \<and> \<not> always_dir k
                                  \<and> step kd (basename k) = k)
                              (map fst fs))))))"

text \<open>
  What the request handler does not implement is a parameter: \<open>from_file\<close> is
  \<open>AudioSegment.from_file(path, format)\<close>, \<open>wav_encode\<close> gives the bytes that
  \<open>audio.export(path, format="wav")\<close> writes, \<open>ydl_download\<close> is
  \<open>ydl.extract_info(url, download=True)\<close> followed by \<open>ydl.prepare_filename(info)\<close>
  (it changes the file system and returns the name of the downloaded file),
  \<open>record_audio\<close> is \<open>sr.AudioFile(path)\<close> with \<open>r.record(source)\<close>, and
  \<open>recognize_google\<close> is the call of the recognition service.
\<close>

type_synonym audio = string

record env =
  from_file :: "fs \<Rightarrow> string \<Rightarrow> string \<Rightarrow> exn + audio"
  wav_encode :: "audio \<Rightarrow> string"
  ydl_download :: "string \<Rightarrow> fs \<Rightarrow> (exn + string) \<times> fs"
  record_audio :: "fs \<Rightarrow> string \<Rightarrow> exn + audio"
  recognize_google :: "audio \<Rightarrow> exn + string"

section \<open>The format normaliser: \<open>convert_to_wav\<close>\<close>

definition UPLOAD_DIR :: string where
  "UPLOAD_DIR = ''temp_uploads''"

definition audio_extensions :: "string list" where
  "audio_extensions = [''.mp3'', ''.wav'', ''.ogg'', ''.flac'', ''.aac'']"

definition video_extensions :: "string list" where
  "video_extensions = [''.mp4'', ''.mov'', ''.avi'', ''.mkv'']"

text \<open>Line 102.\<close>

definition file_extension :: "string \<Rightarrow> string" where
  "file_extension file_path = lower (snd (splitext file_path))"

text \<open>Line 103.\<close>

definition output_wav_path :: "string \<Rightarrow> string" where
  "output_wav_path file_path =
     path_join UPLOAD_DIR (hd (split_chr CHR ''.'' (basename file_path)) @ ''.wav'')"

text \<open>
  \<open>AudioSegment.from_file(file_path, format=file_extension[1:])\<close>, then
  \<open>audio.export(output_wav_path, format="wav")\<close>.
\<close>

definition decode_export :: "env \<Rightarrow> fs \<Rightarrow> string \<Rightarrow> (exn + string option) \<times> fs" where
  "decode_export e fs file_path =
     (case from_file e fs file_path (tl (file_extension file_path)) of
        Inl x \<Rightarrow> (Inl x, fs)
      | Inr audio \<Rightarrow>
          (case write_file fs (output_wav_path file_path) (wav_encode e audio) of
             Inl x \<Rightarrow> (Inl x, fs)
           | Inr fs' \<Rightarrow> (Inr (Some (output_wav_path file_path)), fs')))"

text \<open>The body of the \<open>try\<close> of \<open>convert_to_wav\<close>.\<close>

definition convert_try :: "env \<Rightarrow> fs \<Rightarrow> string \<Rightarrow> (exn + string option) \<times> fs" where
  "convert_try e fs file_path =
     (if file_extension file_path \<in> set audio_extensions then decode_export e fs file_path
      else if file_extension file_path \<in> set video_extensions then decode_export e fs file_path
      else (Inr None, fs))"

text \<open>\<open>except Exception\<close> turns every exception of the body into \<open>None\<close>.\<close>

definition convert_to_wav :: "env \<Rightarrow> fs \<Rightarrow> string \<Rightarrow> (exn + string option) \<times> fs" where
  "convert_to_wav e fs file_path =
     (case convert_try e fs file_path of
        (Inl x, fs') \<Rightarrow> (Inr None, fs')
      | (Inr r, fs') \<Rightarrow> (Inr r, fs'))"

section \<open>The URL audio acquirer: \<open>download_audio_from_url\<close>\<close>

text \<open>Python's truth value of an optional string: \<open>None\<close> and \<open>""\<close> are false.\<close>

definition truthy :: "string option \<Rightarrow> bool" where
  "truthy x = (case x of None \<Rightarrow> False | Some s \<Rightarrow> s \<noteq> [])"

text \<open>The loop of lines 145 to 148.\<close>

fun find_wav :: "string \<Rightarrow> string list \<Rightarrow> string option" where
  "find_wav base_name [] = None"
| "find_wav base_name (f # fs) =
     (if startswith f (basename base_name) \<and> endswith f ''.wav''
      then Some (path_join UPLOAD_DIR f) else find_wav base_name fs)"

text \<open>Lines 151 to 155: the fallback.\<close>

definition fallback :: "env \<Rightarrow> fs \<Rightarrow> string \<Rightarrow> (exn + string option) \<times> fs" where
  "fallback e fs downloaded_file =
     (case convert_to_wav e fs downloaded_file of
        (Inl x, fs2) \<Rightarrow> (Inl x, fs2)
      | (Inr r, fs2) \<Rightarrow>
          if os_path_exists fs2 downloaded_file
          then (case os_remove fs2 downloaded_file of
                  Inl x \<Rightarrow> (Inl x, fs2)
                | Inr fs3 \<Rightarrow> (Inr r, fs3))
          else (Inr r, fs2))"

definition download_try :: "env \<Rightarrow> fs \<Rightarrow> string \<Rightarrow> (exn + string option) \<times> fs" where
  "download_try e fs url =
     (case ydl_download e url fs of
        (Inl x, fs1) \<Rightarrow> (Inl x, fs1)
      | (Inr downloaded_file, fs1) \<Rightarrow>
          (case listdir fs1 UPLOAD_DIR of
             Inl x \<Rightarrow> (Inl x, fs1)
           | Inr names \<Rightarrow>
               (let wav_output_path = find_wav (fst (splitext downloaded_file)) names
                in if \<not> truthy wav_output_path
                      \<or> \<not> os_path_exists fs1 (case wav_output_path of Some w \<Rightarrow> w | None \<Rightarrow> [])
                   then fallback e fs1 downloaded_file
                   else (Inr wav_output_path, fs1))))"

definition download_audio_from_url :: "env \<Rightarrow> fs \<Rightarrow> string \<Rightarrow> (exn + string option) \<times> fs" where
  "download_audio_from_url e fs url =
     (case download_try e fs url of
        (Inl x, fs') \<Rightarrow> (Inr None, fs')
      | (Inr r, fs') \<Rightarrow> (Inr r, fs'))"

section \<open>The transcriber: \<open>transcribe_audio\<close>\<close>

definition transcribe_try :: "env \<Rightarrow> fs \<Rightarrow> string \<Rightarrow> exn + string" where
  "transcribe_try e fs audio_file_path =
     (case record_audio e fs audio_file_path of
        Inl x \<Rightarrow> Inl x
      | Inr audio \<Rightarrow> recognize_google e audio)"

definition transcribe_audio :: "env \<Rightarrow> fs \<Rightarrow> string \<Rightarrow> exn + string" where
  "transcribe_audio e fs audio_file_path =
     (case transcribe_try e fs audio_file_path of
        Inr transcription \<Rightarrow> Inr transcription
      | Inl UnknownValueError \<Rightarrow> Inr ''Google Speech Recognition could not understand audio''
      | Inl (RequestError m) \<Rightarrow>
          Inr (''Could not request results from Google Speech Recognition service; '' @ m)
      | Inl (Error m) \<Rightarrow> Inr (''Error during transcription: '' @ m))"

section \<open>The request handler: \<open>transcribe_audio_video\<close>\<close>

text \<open>
  An upload is its client-supplied file name and the bytes that \<open>file.file\<close> has not
  given yet. \<open>UploadFile\<close> defines no truth value, so \<open>if file:\<close> asks whether a file
  part was sent.
\<close>

record upload =
  filename :: string
  stream :: string

record request =
  file_upload :: "upload option"
  video_url :: "string option"

record response =
  status_code :: nat
  transcribed_text :: string
  error_message :: "string option"

record locals =
  temp_file_path :: "string option"
  audio_file_path :: "string option"

text \<open>What is raised inside the handler, and the calls it makes, in order.\<close>

datatype raised = HTTPException nat string | Exc exn

datatype event = Convert string | Download string | Transcribe string | Remove string

type_synonym outcome = "(raised + string) \<times> locals \<times> fs \<times> event list"

text \<open>
  Lines 43 to 50 save the upload twice. \<open>shutil.copyfileobj\<close> reads \<open>file.file\<close> to its
  end, so the second copy finds nothing left to read.
\<close>

definition save_upload :: "fs \<Rightarrow> upload \<Rightarrow> exn + fs" where
  "save_upload fs f =
     (case write_file fs (path_join UPLOAD_DIR (filename f)) (stream f) of
        Inl x \<Rightarrow> Inl x
      | Inr fs1 \<Rightarrow> write_file fs1 (path_join UPLOAD_DIR (filename f)) [])"

text \<open>Lines 72 to 75.\<close>

definition transcription_stage :: "env \<Rightarrow> string \<Rightarrow> locals \<Rightarrow> fs \<Rightarrow> event list \<Rightarrow> outcome" where
  "transcription_stage e a loc fs tr =
     (case transcribe_audio e fs a of
        Inl x \<Rightarrow> (Inl (Exc x), loc, fs, tr @ [Transcribe a])
      | Inr t \<Rightarrow> (Inr t, loc, fs, tr @ [Transcribe a]))"

text \<open>Lines 41 to 57.\<close>

definition file_branch :: "env \<Rightarrow> fs \<Rightarrow> upload \<Rightarrow> outcome" where
  "file_branch e fs f =
     (let temp = path_join UPLOAD_DIR (filename f);
          loc = \<lparr>temp_file_path = Some temp, audio_file_path = None\<rparr>
      in case save_upload fs f of
           Inl x \<Rightarrow>
             (Inl (Exc x), loc,
              (case write_file fs temp (stream f) of Inl _ \<Rightarrow> fs | Inr fs1 \<Rightarrow> fs1), [])
         | Inr fs2 \<Rightarrow>
             (case convert_to_wav e fs2 temp of
                (Inl x, fs3) \<Rightarrow> (Inl (Exc x), loc, fs3, [Convert temp])
              | (Inr a, fs3) \<Rightarrow>
                  if \<not> truthy a
                  then (Inl (HTTPException 400 ''Could not convert file to audio.''),
                        loc\<lparr>audio_file_path := a\<rparr>, fs3, [Convert temp])
                  else transcription_stage e (case a of Some w \<Rightarrow> w | None \<Rightarrow> [])
                         (loc\<lparr>audio_file_path := a\<rparr>) fs3 [Convert temp]))"

text \<open>Lines 59 to 68.\<close>

definition url_branch :: "env \<Rightarrow> fs \<Rightarrow> string \<Rightarrow> outcome" where
  "url_branch e fs u =
     (let loc = \<lparr>temp_file_path = None, audio_file_path = None\<rparr>
      in if \<not> is_valid_url u
         then (Inl (HTTPException 400 ''Invalid URL provided.''), loc, fs, [])
         else (case download_audio_from_url e fs u of
                 (Inl x, fs1) \<Rightarrow> (Inl (Exc x), loc, fs1, [Download u])
               | (Inr a, fs1) \<Rightarrow>
                   if \<not> truthy a
                   then (Inl (HTTPException 400
                                ''Could not download audio from the provided URL.''),
                         loc\<lparr>audio_file_path := a\<rparr>, fs1, [Download u])
                   else transcription_stage e (case a of Some w \<Rightarrow> w | None \<Rightarrow> [])
                          (loc\<lparr>audio_file_path := a\<rparr>) fs1 [Download u]))"

text \<open>The body of the \<open>try\<close>, lines 41 to 75.\<close>

definition try_body :: "env \<Rightarrow> fs \<Rightarrow> request \<Rightarrow> outcome" where
  "try_body e fs req =
     (case file_upload req of
        Some f \<Rightarrow> file_branch e fs f
      | None \<Rightarrow>
          if truthy (video_url req)
          then url_branch e fs (case video_url req of Some u \<Rightarrow> u | None \<Rightarrow> [])
          else (Inl (HTTPException 400 ''No file or video URL provided.''),
                \<lparr>temp_file_path = None, audio_file_path = None\<rparr>, fs, []))"

text \<open>
  One step of the \<open>finally\<close> block, lines 85 to 86 and 88 to 89. \<open>os.remove\<close> is called
  unguarded, so what it raises leaves the handler.
\<close>

definition cleanup :: "string option \<Rightarrow> fs \<Rightarrow> event list \<Rightarrow> exn + fs \<times> event list" where
  "cleanup path fs tr =
     (case path of
        None \<Rightarrow> Inr (fs, tr)
      | Some p \<Rightarrow>
          if p \<noteq> [] \<and> os_path_exists fs p
          then (case os_remove fs p of
                  Inl x \<Rightarrow> Inl x
                | Inr fs' \<Rightarrow> Inr (fs', tr @ [Remove p]))
          else Inr (fs, tr))"

text \<open>\<open>templates.TemplateResponse\<close> answers with the default status.\<close>

definition TemplateResponse :: "string \<Rightarrow> string option \<Rightarrow> response" where
  "TemplateResponse text err =
     \<lparr>status_code = 200, transcribed_text = text, error_message = err\<rparr>"

text \<open>Lines 77 to 82: what the two \<open>except\<close> clauses leave in the two variables.\<close>

definition rendered :: "raised + string \<Rightarrow> string \<times> string option" where
  "rendered r =
     (case r of
        Inr t \<Rightarrow> (t, None)
      | Inl (HTTPException c detail) \<Rightarrow> ([], Some detail)
      | Inl (Exc x) \<Rightarrow> ([], Some (''An unexpected error occurred: '' @ str_exn x)))"

text \<open>
  The handler: the answer or the exception that leaves it, the file system and the
  calls made.
\<close>

definition transcribe_audio_video ::
    "env \<Rightarrow> fs \<Rightarrow> request \<Rightarrow> (exn + response) \<times> fs \<times> event list" where
  "transcribe_audio_video e fs req =
     (case try_body e fs req of
        (r, loc, fs1, tr1) \<Rightarrow>
          (case cleanup (temp_file_path loc) fs1 tr1 of
             Inl x \<Rightarrow> (Inl x, fs1, tr1)
           | Inr (fs2, tr2) \<Rightarrow>
               (case cleanup (audio_file_path loc) fs2 tr2 of
                  Inl x \<Rightarrow> (Inl x, fs2, tr2)
                | Inr (fs3, tr3) \<Rightarrow>
                    (Inr (TemplateResponse (fst (rendered r)) (snd (rendered r))),
                     fs3, tr3))))"

section \<open>A concrete environment\<close>

text \<open>
  A decoder that rejects missing and empty files, a downloader that leaves one WebM
  file, and a recogniser that always hears the same words.
\<close>

definition demo_fs :: fs where
  "demo_fs = [(''temp_uploads'', Dir)]"

definition demo_env :: env where
  "demo_env =
     \<lparr>from_file = (\<lambda>fs p fmt. case lookup fs p of
                      Some (File d) \<Rightarrow> if d = [] then Inl (Error ''empty input'') else Inr d
                    | _ \<Rightarrow> Inl (FileNotFoundError p)),
      wav_encode = (\<lambda>a. ''RIFF'' @ a),
      ydl_download = (\<lambda>url fs. (Inr ''temp_uploads/abc.webm'',
                      AList.update ''temp_uploads/abc.webm'' (File ''webm'') fs)),
      record_audio = (\<lambda>fs p. case lookup fs p of
                      Some (File d) \<Rightarrow> Inr d
                    | _ \<Rightarrow> Inl (FileNotFoundError p)),
      recognize_google = (\<lambda>a. Inr ''hello world'')\<rparr>"

text \<open>The same environment with a recogniser that raises.\<close>

definition failing_env :: "exn \<Rightarrow> env" where
  "failing_env x = demo_env\<lparr>recognize_google := (\<lambda>a. Inl x)\<rparr>"

definition wav_fs :: fs where
  "wav_fs = [(''temp_uploads'', Dir), (''temp_uploads/a.wav'', File ''RIFF'')]"


text \<open>
  A downloader that leaves an MP3 file, with the same recogniser and with one that
  understands nothing, and the file systems these runs go through.
\<close>

definition webm_fs :: fs where
  "webm_fs = [(''temp_uploads'', Dir), (''temp_uploads/abc.webm'', File ''webm'')]"

definition mp3_env :: env where
  "mp3_env = demo_env\<lparr>ydl_download := (\<lambda>url fs. (Inr ''temp_uploads/abc.mp3'',
                AList.update ''temp_uploads/abc.mp3'' (File ''ID3'') fs))\<rparr>"


definition mp3_fs :: fs where
  "mp3_fs = [(''temp_uploads'', Dir), (''temp_uploads/abc.mp3'', File ''ID3'')]"





section \<open>Facts about paths and the validator\<close>

lemma split_chr_nonempty: "split_chr c s \<noteq> []"
  by (induction s) (auto split: list.splits)

text \<open>The five examples of the specification.\<close>

lemma is_valid_url_examples:
  "is_valid_url ''https://example.com/video''"
  "is_valid_url ''http://localhost:8080/x''"
  "is_valid_url ''https://203.0.113.5/a?b=1''"
  "\<not> is_valid_url ''not a url''"
  "\<not> is_valid_url ''http//missing-colon''"
  by code_simp+

text \<open>
  A client-supplied name with a parent-directory segment is joined as it is, and the
  path it gives is not below \<open>temp_uploads\<close>.
\<close>

lemma upload_path_escapes:
  "path_join UPLOAD_DIR ''../evil.wav'' = ''temp_uploads/../evil.wav''"
  "normpath (path_join UPLOAD_DIR ''../evil.wav'') = ''evil.wav''"
  by code_simp+

section \<open>Facts about the file system and the three stages\<close>


lemma node_at_delete_mono:
  "node_at (AList.delete k fs) c = Some n \<Longrightarrow> node_at fs c = Some n"
  by (auto simp: node_at_def delete_conv' split: if_splits)

lemma node_at_delete_other:
  "node_at fs k = Some (File d) \<Longrightarrow> node_at fs c = Some Dir
   \<Longrightarrow> node_at (AList.delete k fs) c = Some Dir"
  by (auto simp: node_at_def delete_conv' split: if_splits)

lemma node_at_delete_same:
  "node_at fs k = Some (File d) \<Longrightarrow> node_at (AList.delete k fs) k = None"
  by (auto simp: node_at_def delete_conv' split: if_splits)

lemma walk_delete:
  assumes "node_at fs k = Some (File d)"
  shows "walk fs p cur cs = Inr k' \<Longrightarrow> walk (AList.delete k fs) p cur cs = Inr k'"
proof (induction cs arbitrary: cur)
  case Nil
  then show ?case by simp
next
  case (Cons c cs)
  from Cons.prems have dir: "node_at fs cur = Some Dir"
    by (auto split: option.splits node.splits)
  with Cons.prems have "walk fs p (step cur c) cs = Inr k'"
    by simp
  then have "walk (AList.delete k fs) p (step cur c) cs = Inr k'"
    by (rule Cons.IH)
  moreover have "node_at (AList.delete k fs) cur = Some Dir"
    using assms dir by (rule node_at_delete_other)
  ultimately show ?case by simp
qed

lemma walk_delete_mono:
  "walk (AList.delete k fs) p cur cs = Inr k' \<Longrightarrow> walk fs p cur cs = Inr k'"
proof (induction cs arbitrary: cur)
  case Nil
  then show ?case by simp
next
  case (Cons c cs)
  from Cons.prems have dir: "node_at (AList.delete k fs) cur = Some Dir"
    by (auto split: option.splits node.splits)
  then have dir': "node_at fs cur = Some Dir"
    by (rule node_at_delete_mono)
  from Cons.prems dir have "walk (AList.delete k fs) p (step cur c) cs = Inr k'"
    by simp
  then have "walk fs p (step cur c) cs = Inr k'"
    by (rule Cons.IH)
  with dir' show ?case by simp
qed




lemma resolve_delete_mono:
  assumes "resolve (AList.delete k fs) q = Inr k'"
  shows "resolve fs q = Inr k'"
proof (cases "path_fault q")
  case None
  with assms have "walk (AList.delete k fs) q (start_dir q) (split_chr CHR ''/'' q) = Inr k'"
    by (simp add: resolve_def)
  then have "walk fs q (start_dir q) (split_chr CHR ''/'' q) = Inr k'"
    by (rule walk_delete_mono)
  with None show ?thesis
    by (simp add: resolve_def)
next
  case (Some x)
  with assms show ?thesis
    by (simp add: resolve_def)
qed

lemma resolve_delete:
  assumes "node_at fs k = Some (File d)" and "resolve fs p = Inr k'"
  shows "resolve (AList.delete k fs) p = Inr k'"
proof (cases "path_fault p")
  case None
  with assms(2) have "walk fs p (start_dir p) (split_chr CHR ''/'' p) = Inr k'"
    by (simp add: resolve_def)
  with assms(1) have "walk (AList.delete k fs) p (start_dir p) (split_chr CHR ''/'' p) = Inr k'"
    by (rule walk_delete)
  with None show ?thesis
    by (simp add: resolve_def)
next
  case (Some x)
  with assms(2) show ?thesis
    by (simp add: resolve_def)
qed


lemma lookup_delete_mono:
  assumes "lookup (AList.delete k fs) q = Some n"
  shows "lookup fs q = Some n"
proof (cases "resolve (AList.delete k fs) q")
  case (Inl x)
  with assms show ?thesis
    by (simp add: lookup_def)
next
  case (Inr k')
  with assms have n: "node_at (AList.delete k fs) k' = Some n"
    by (simp add: lookup_def)
  then have "node_at fs k' = Some n"
    by (rule node_at_delete_mono)
  moreover from Inr have "resolve fs q = Inr k'"
    by (rule resolve_delete_mono)
  ultimately show ?thesis
    by (simp add: lookup_def)
qed

lemma lookup_unlinked_mono:
  assumes "lookup (unlinked fs p) q = Some n"
  shows "lookup fs q = Some n"
proof (cases "resolve fs p")
  case (Inl x)
  with assms show ?thesis
    by (simp add: unlinked_def)
next
  case (Inr k)
  with assms have "lookup (AList.delete k fs) q = Some n"
    by (simp add: unlinked_def)
  then show ?thesis
    by (rule lookup_delete_mono)
qed

lemma lookup_unlinked_None: "lookup fs q = None \<Longrightarrow> lookup (unlinked fs p) q = None"
  using lookup_unlinked_mono [of fs p q] by (cases "lookup (unlinked fs p) q") auto

lemma lookup_FileD:
  assumes "lookup fs p = Some n"
  shows "\<exists>k. resolve fs p = Inr k \<and> node_at fs k = Some n"
proof (cases "resolve fs p")
  case (Inl x)
  with assms show ?thesis
    by (simp add: lookup_def)
next
  case (Inr k)
  with assms show ?thesis
    by (simp add: lookup_def)
qed

lemma lookup_unlinked_same:
  assumes "lookup fs p = Some (File d)"
  shows "lookup (unlinked fs p) p = None"
proof -
  from lookup_FileD [OF assms] obtain k where r: "resolve fs p = Inr k"
      and n: "node_at fs k = Some (File d)"
    by blast
  from n r have "resolve (AList.delete k fs) p = Inr k"
    by (rule resolve_delete)
  moreover from n have "node_at (AList.delete k fs) k = None"
    by (rule node_at_delete_same)
  ultimately show ?thesis
    using r by (simp add: lookup_def unlinked_def)
qed

lemma os_remove_File:
  assumes "lookup fs p = Some (File d)"
  shows "os_remove fs p = Inr (unlinked fs p)"
proof -
  from lookup_FileD [OF assms] obtain k where "resolve fs p = Inr k" "node_at fs k = Some (File d)"
    by blast
  then show ?thesis
    by (simp add: os_remove_def)
qed

lemma os_remove_Dir:
  assumes "lookup fs p = Some Dir"
  shows "os_remove fs p = Inl (IsADirectoryError p)"
proof -
  from lookup_FileD [OF assms] obtain k where "resolve fs p = Inr k" "node_at fs k = Some Dir"
    by blast
  then show ?thesis
    by (simp add: os_remove_def)
qed





text \<open>None of the three stages lets an exception out.\<close>

lemma convert_to_wav_returns: "\<exists>r fs'. convert_to_wav e fs p = (Inr r, fs')"
  by (auto simp: convert_to_wav_def split: prod.splits sum.splits)

lemma download_audio_from_url_returns: "\<exists>r fs'. download_audio_from_url e fs u = (Inr r, fs')"
  by (auto simp: download_audio_from_url_def split: prod.splits sum.splits)


lemma find_wav_None:
  "\<forall>f\<in>set names. \<not> (startswith f (basename b) \<and> endswith f ''.wav'') \<Longrightarrow> find_wav b names = None"
  by (induction names) auto

lemma fallback_deletes:
  assumes "convert_to_wav e fs1 d = (Inr r, fs2)" and "lookup fs2 d \<noteq> Some Dir"
  shows "\<exists>fs3. fallback e fs1 d = (Inr r, fs3) \<and> \<not> os_path_exists fs3 d"
proof (cases "lookup fs2 d")
  case None
  then show ?thesis
    using assms by (simp add: fallback_def os_path_exists_def)
next
  case (Some n)
  with assms(2) obtain c where c: "lookup fs2 d = Some (File c)"
    by (cases n) auto
  then show ?thesis
    using assms(1)
    by (simp add: fallback_def os_path_exists_def os_remove_File lookup_unlinked_same)
qed






text \<open>
  What the \<open>finally\<close> block achieves whenever the handler does return: neither path is
  left behind, and none is removed twice.
\<close>

lemma try_body_no_remove:
  assumes "try_body e fs req = (r, loc, fs1, tr)"
  shows "Remove p \<notin> set tr"
  using assms
  by (auto simp: try_body_def file_branch_def url_branch_def transcription_stage_def Let_def
           split: option.splits sum.splits prod.splits if_splits)

lemma cleanup_outcome:
  assumes "cleanup path fs tr = Inr (fs', tr')"
  shows "(\<forall>p. path = Some p \<longrightarrow> p \<noteq> [] \<longrightarrow> \<not> os_path_exists fs' p)
         \<and> (\<forall>q. \<not> os_path_exists fs q \<longrightarrow> \<not> os_path_exists fs' q)
         \<and> (tr' = tr \<or> (\<exists>p. path = Some p \<and> os_path_exists fs p \<and> tr' = tr @ [Remove p]))"
proof (cases path)
  case None
  with assms show ?thesis
    by (simp add: cleanup_def)
next
  case (Some p)
  show ?thesis
  proof (cases "p \<noteq> [] \<and> os_path_exists fs p")
    case False
    with Some assms have "fs' = fs" "tr' = tr"
      by (simp_all add: cleanup_def)
    with Some False show ?thesis
      by auto
  next
    case True
    then obtain n where n: "lookup fs p = Some n"
      by (auto simp: os_path_exists_def)
    show ?thesis
    proof (cases n)
      case Dir
      with n have "os_remove fs p = Inl (IsADirectoryError p)"
        by (simp add: os_remove_Dir)
      with Some True assms show ?thesis
        by (simp add: cleanup_def)
    next
      case (File d)
      with n have "os_remove fs p = Inr (unlinked fs p)"
        by (simp add: os_remove_File)
      with Some True assms have "fs' = unlinked fs p" "tr' = tr @ [Remove p]"
        by (simp_all add: cleanup_def)
      moreover have "lookup (unlinked fs p) p = None"
        using n File by (simp add: lookup_unlinked_same)
      ultimately show ?thesis
        using Some True by (auto simp: os_path_exists_def lookup_unlinked_None)
    qed
  qed
qed


lemma cleanup_leaves_no_artifact:
  assumes body: "try_body e fs req = (r, loc, fs1, tr)"
      and run: "transcribe_audio_video e fs req = (Inr resp, fs', tr')"
      and p: "temp_file_path loc = Some p \<or> audio_file_path loc = Some p" "p \<noteq> []"
  shows "\<not> os_path_exists fs' p \<and> count_list tr' (Remove p) \<le> 1"
proof -
  from run body obtain fs2 tr2 where
      c1: "cleanup (temp_file_path loc) fs1 tr = Inr (fs2, tr2)"
      and c2: "cleanup (audio_file_path loc) fs2 tr2 = Inr (fs', tr')"
    by (auto simp: transcribe_audio_video_def split: sum.splits prod.splits)
  note o1 = cleanup_outcome [OF c1] and o2 = cleanup_outcome [OF c2]
  have gone: "\<not> os_path_exists fs' p"
    using p o1 o2 by blast
  have none: "count_list tr (Remove p) = 0"
    using try_body_no_remove [OF body] by (simp add: count_list_0_iff)
  have "count_list tr' (Remove p) \<le> 1"
  proof (cases "tr2 = tr")
    case True
    then show ?thesis
      using o2 none by auto
  next
    case False
    then obtain q where q: "temp_file_path loc = Some q" "tr2 = tr @ [Remove q]"
        "\<not> os_path_exists fs2 q"
      using o1 cleanup_def [of "temp_file_path loc" fs1 tr] c1
      by (auto split: option.splits if_splits sum.splits)
    show ?thesis
      using o2 q none by auto
  qed
  with gone show ?thesis ..
qed

section \<open>The claims\<close>

text \<open>
  C1. The claim: on every request each artifact is gone when the handler answers, and the
  cleanup never raises. The code calls \<open>os.remove\<close> unguarded on every path that exists.
  A browser that sends an empty file field gives an upload whose file name is empty;
  \<open>temp_file_path\<close> is then \<open>temp_uploads/\<close>, the upload directory itself: opening it
  raises, the \<open>except\<close> clause catches that, and in the \<open>finally\<close> block the path exists,
  so \<open>os.remove\<close> is called on a directory and its exception leaves the handler, which
  returns no response. This holds whatever the libraries do. When the handler does
  return, the rest of the claim holds (\<open>cleanup_leaves_no_artifact\<close>).
\<close>

theorem cleanup_raises_on_directory:
  "fst (transcribe_audio_video e demo_fs
          \<lparr>file_upload = Some \<lparr>filename = [], stream = []\<rparr>, video_url = None\<rparr>)
     = Inl (IsADirectoryError ''temp_uploads/'')"
  by code_simp

text \<open>
  C4. The claim: \<open>is_valid_url\<close> is true exactly for the strings of URL shape. The five
  examples are as claimed (\<open>is_valid_url_examples\<close>), but the pattern ends in \<open>$\<close>, which
  also matches before a final newline: a URL followed by a line feed, which has no URL
  shape, is accepted.
\<close>

theorem is_valid_url_trailing_newline:
  "is_valid_url (''http://example.com'' @ [CHR 0x0A])"
  by code_simp

text \<open>
  C7. The claim: the output is named after the input's base name with its extension
  replaced, \<open>my.song.wav\<close> for \<open>my.song.mp3\<close>. Line 103 cuts the base name at its first
  dot, not at the last one as line 102 does for the extension: the output of
  \<open>my.song.mp3\<close> is \<open>my.wav\<close>.
\<close>

theorem output_wav_path_cuts_at_first_dot:
  "output_wav_path ''temp_uploads/my.song.mp3'' = ''temp_uploads/my.wav''
   \<and> output_wav_path ''temp_uploads/my.song.mp3'' \<noteq> ''temp_uploads/my.song.wav''
   \<and> fst (convert_to_wav demo_env
            [(''temp_uploads'', Dir), (''temp_uploads/my.song.mp3'', File ''ID3'')]
            ''temp_uploads/my.song.mp3'') = Inr (Some ''temp_uploads/my.wav'')"
  by code_simp

text \<open>
  C10. The claim: the upload is persisted byte for byte under its client-supplied name,
  joined to the upload directory unsanitised. The name is joined as claimed
  (\<open>upload_path_escapes\<close>), but the block that saves the upload is written twice, and the
  second copy truncates the file and reads a stream that is already at its end: the
  eight bytes of this upload are saved as an empty file.
\<close>

theorem save_upload_leaves_empty_file:
  "save_upload demo_fs \<lparr>filename = ''a.wav'', stream = ''RIFFdata''\<rparr>
     = Inr [(''temp_uploads'', Dir), (''temp_uploads/a.wav'', File [])]"
  by code_simp

text \<open>
  C2. For every path \<open>transcribe_audio\<close> returns a string and raises nothing: the text
  that the recogniser gives; the fixed message when the recogniser raises
  \<open>UnknownValueError\<close>; a message that ends with the text of the exception when it
  raises \<open>RequestError\<close>, and another one for any other exception, whether it comes from
  reading the file or from the recognition call.
\<close>

theorem transcribe_audio_outcomes:
  "(\<exists>s. transcribe_audio e fs p = Inr s)
   \<and> (\<forall>t. transcribe_try e fs p = Inr t \<longrightarrow> transcribe_audio e fs p = Inr t)
   \<and> (transcribe_try e fs p = Inl UnknownValueError \<longrightarrow>
        transcribe_audio e fs p
          = Inr ''Google Speech Recognition could not understand audio'')
   \<and> (\<forall>m. transcribe_try e fs p = Inl (RequestError m) \<longrightarrow>
        transcribe_audio e fs p
          = Inr (''Could not request results from Google Speech Recognition service; ''
                 @ str_exn (RequestError m)))
   \<and> (\<forall>m. transcribe_try e fs p = Inl (Error m) \<longrightarrow>
        transcribe_audio e fs p = Inr (''Error during transcription: '' @ str_exn (Error m)))"
  by (auto simp: transcribe_audio_def split: sum.splits exn.splits)

theorem transcribe_audio_outcomes_witness:
  "transcribe_audio demo_env wav_fs ''temp_uploads/a.wav'' = Inr ''hello world''
   \<and> transcribe_audio (failing_env UnknownValueError) wav_fs ''temp_uploads/a.wav''
       = Inr ''Google Speech Recognition could not understand audio''
   \<and> transcribe_audio (failing_env (RequestError ''recognition connection failed''))
         wav_fs ''temp_uploads/a.wav''
       = Inr ''Could not request results from Google Speech Recognition service; recognition connection failed''
   \<and> transcribe_audio demo_env wav_fs ''temp_uploads/missing.wav''
       = Inr (''Error during transcription: ''
              @ str_exn (FileNotFoundError ''temp_uploads/missing.wav''))"
proof -
  have 1: "transcribe_try demo_env wav_fs ''temp_uploads/a.wav'' = Inr ''hello world''"
    by code_simp
  have 2: "transcribe_try (failing_env UnknownValueError) wav_fs ''temp_uploads/a.wav''
             = Inl UnknownValueError"
    by code_simp
  have 3: "transcribe_try (failing_env (RequestError ''recognition connection failed''))
               wav_fs ''temp_uploads/a.wav''
             = Inl (RequestError ''recognition connection failed'')"
    by code_simp
  have 4: "transcribe_try demo_env wav_fs ''temp_uploads/missing.wav''
             = Inl (Error (str_exn (FileNotFoundError ''temp_uploads/missing.wav'')))"
    by code_simp
  show ?thesis
    using 1 2 3 4
      transcribe_audio_outcomes [of demo_env wav_fs "''temp_uploads/a.wav''"]
      transcribe_audio_outcomes [of "failing_env UnknownValueError" wav_fs "''temp_uploads/a.wav''"]
      transcribe_audio_outcomes [of "failing_env (RequestError ''recognition connection failed'')"
                                    wav_fs "''temp_uploads/a.wav''"]
      transcribe_audio_outcomes [of demo_env wav_fs "''temp_uploads/missing.wav''"]
    by (simp add: FileNotFoundError_def)
qed

text \<open>
  C3. A request with no file part and with no URL, or an empty one, is answered with the
  message \<open>No file or video URL provided.\<close>; the file system is left as it was and none
  of the stages is called.
\<close>

theorem no_input_rejected:
  assumes "file_upload req = None" and "\<not> truthy (video_url req)"
  shows "transcribe_audio_video e fs req
           = (Inr \<lparr>status_code = 200, transcribed_text = [],
                   error_message = Some ''No file or video URL provided.''\<rparr>, fs, [])"
  using assms
  by (simp add: transcribe_audio_video_def try_body_def cleanup_def rendered_def
                TemplateResponse_def)

theorem no_input_rejected_witness:
  "transcribe_audio_video demo_env demo_fs \<lparr>file_upload = None, video_url = Some []\<rparr>
     = (Inr \<lparr>status_code = 200, transcribed_text = [],
             error_message = Some ''No file or video URL provided.''\<rparr>, demo_fs, [])
   \<and> transcribe_audio_video demo_env demo_fs \<lparr>file_upload = None, video_url = None\<rparr>
     = (Inr \<lparr>status_code = 200, transcribed_text = [],
             error_message = Some ''No file or video URL provided.''\<rparr>, demo_fs, [])"
  using no_input_rejected [of "\<lparr>file_upload = None, video_url = Some []\<rparr>" demo_env demo_fs]
        no_input_rejected [of "\<lparr>file_upload = None, video_url = None\<rparr>" demo_env demo_fs]
  by (simp add: truthy_def)

text \<open>
  C5. A request with no file part and a URL that \<open>is_valid_url\<close> rejects is answered with
  the message \<open>Invalid URL provided.\<close>; the list of calls is empty, so
  \<open>download_audio_from_url\<close> is not called, and the file system is left as it was. A URL
  is a non-empty string here: line 59 takes an empty one for no URL, which is the case
  of C3.
\<close>

theorem invalid_url_short_circuits:
  assumes "file_upload req = None" and "video_url req = Some u" and "u \<noteq> []"
      and "\<not> is_valid_url u"
  shows "transcribe_audio_video e fs req
           = (Inr \<lparr>status_code = 200, transcribed_text = [],
                   error_message = Some ''Invalid URL provided.''\<rparr>, fs, [])"
  using assms
  by (simp add: transcribe_audio_video_def try_body_def url_branch_def cleanup_def
                rendered_def TemplateResponse_def truthy_def)

theorem invalid_url_short_circuits_witness:
  "transcribe_audio_video demo_env demo_fs
       \<lparr>file_upload = None, video_url = Some ''http//missing-colon''\<rparr>
     = (Inr \<lparr>status_code = 200, transcribed_text = [],
             error_message = Some ''Invalid URL provided.''\<rparr>, demo_fs, [])"
  using invalid_url_short_circuits
          [of "\<lparr>file_upload = None, video_url = Some ''http//missing-colon''\<rparr>"
              "''http//missing-colon''" demo_env demo_fs]
        is_valid_url_examples(5)
  by simp




text \<open>
  C8. The claim: when no name in the upload directory starts with the base name of the
  download and ends in \<open>.wav\<close>, the normaliser is run on the downloaded file, and that
  file is deleted exactly when the normalisation succeeds. The first half holds. The
  second does not: line 154 asks only whether the file exists. Here the download is a
  WebM file, which the normaliser refuses, and the file is deleted all the same.
\<close>

theorem intermediate_deleted_though_normalization_fails:
  "ydl_download demo_env ''https://example.com/video'' demo_fs
     = (Inr ''temp_uploads/abc.webm'', webm_fs)
   \<and> listdir webm_fs UPLOAD_DIR = Inr [''abc.webm'']
   \<and> \<not> (startswith ''abc.webm'' (basename (fst (splitext ''temp_uploads/abc.webm'')))
          \<and> endswith ''abc.webm'' ''.wav'')
   \<and> os_path_exists webm_fs ''temp_uploads/abc.webm''
   \<and> convert_to_wav demo_env webm_fs ''temp_uploads/abc.webm'' = (Inr None, webm_fs)
   \<and> download_audio_from_url demo_env demo_fs ''https://example.com/video''
       = (Inr None, demo_fs)
   \<and> \<not> os_path_exists demo_fs ''temp_uploads/abc.webm''"
  by code_simp

text \<open>
  C8, as amended. When the download succeeds and no name in the upload directory starts
  with its base name and ends in \<open>.wav\<close>, \<open>download_audio_from_url\<close> returns what
  \<open>convert_to_wav\<close> returns on the downloaded file, and that file, unless it is a
  directory, does not exist afterwards, whether the normalisation succeeded or not.
\<close>

theorem fallback_deletes_intermediate:
  assumes "ydl_download e url fs = (Inr d, fs1)"
      and "listdir fs1 UPLOAD_DIR = Inr names"
      and "\<forall>f\<in>set names. \<not> (startswith f (basename (fst (splitext d))) \<and> endswith f ''.wav'')"
      and "convert_to_wav e fs1 d = (Inr r, fs2)"
      and "lookup fs2 d \<noteq> Some Dir"
  shows "\<exists>fs3. download_audio_from_url e fs url = (Inr r, fs3) \<and> \<not> os_path_exists fs3 d"
proof -
  have "find_wav (fst (splitext d)) names = None"
    using assms(3) by (rule find_wav_None)
  then have "download_try e fs url = fallback e fs1 d"
    using assms(1,2) by (simp add: download_try_def truthy_def)
  moreover obtain fs3 where "fallback e fs1 d = (Inr r, fs3)" "\<not> os_path_exists fs3 d"
    using fallback_deletes [OF assms(4,5)] by blast
  ultimately show ?thesis
    by (simp add: download_audio_from_url_def)
qed


theorem fallback_deletes_intermediate_witness:
  "(\<exists>fs3. download_audio_from_url demo_env demo_fs ''https://example.com/video''
             = (Inr None, fs3)
          \<and> \<not> os_path_exists fs3 ''temp_uploads/abc.webm'')
   \<and> (\<exists>fs3. download_audio_from_url mp3_env demo_fs ''https://example.com/video''
             = (Inr (Some ''temp_uploads/abc.wav''), fs3)
          \<and> \<not> os_path_exists fs3 ''temp_uploads/abc.mp3'')"
proof -
  have a1: "ydl_download demo_env ''https://example.com/video'' demo_fs
              = (Inr ''temp_uploads/abc.webm'', webm_fs)"
    by code_simp
  have a2: "listdir webm_fs UPLOAD_DIR = Inr [''abc.webm'']"
    by code_simp
  have a3: "\<forall>f\<in>set [''abc.webm''].
              \<not> (startswith f (basename (fst (splitext ''temp_uploads/abc.webm'')))
                 \<and> endswith f ''.wav'')"
    by code_simp
  have a4: "convert_to_wav demo_env webm_fs ''temp_uploads/abc.webm'' = (Inr None, webm_fs)"
    by code_simp
  have a5: "lookup webm_fs ''temp_uploads/abc.webm'' \<noteq> Some Dir"
    by code_simp
  have b1: "ydl_download mp3_env ''https://example.com/video'' demo_fs
              = (Inr ''temp_uploads/abc.mp3'', mp3_fs)"
    by code_simp
  have b2: "listdir mp3_fs UPLOAD_DIR = Inr [''abc.mp3'']"
    by code_simp
  have b3: "\<forall>f\<in>set [''abc.mp3''].
              \<not> (startswith f (basename (fst (splitext ''temp_uploads/abc.mp3'')))
                 \<and> endswith f ''.wav'')"
    by code_simp
  have b4: "convert_to_wav mp3_env mp3_fs ''temp_uploads/abc.mp3''
              = (Inr (Some ''temp_uploads/abc.wav''),
                 mp3_fs @ [(''temp_uploads/abc.wav'', File ''RIFFID3'')])"
    by code_simp
  have b5: "lookup (mp3_fs @ [(''temp_uploads/abc.wav'', File ''RIFFID3'')])
              ''temp_uploads/abc.mp3'' \<noteq> Some Dir"
    by code_simp
  show ?thesis
    using fallback_deletes_intermediate [OF a1 a2 a3 a4 a5]
          fallback_deletes_intermediate [OF b1 b2 b3 b4 b5]
    by simp
qed




end
